theory Spec2Isabelle
  imports Main "HOL-Library.Sublist" "HOL-Library.AList"
begin

section \<open>Marathon.py: audit of a fleet of network devices\<close>

text \<open>
  The theory embeds \<^verbatim>\<open>src/Marathon.py\<close>. Python strings are \<open>string\<close>, read as
  sequences of code points below 256. Every exception the script can meet is a value of
  \<open>exn\<close>, and a function that may raise returns \<open>exn + 'a\<close> with \<open>Inl\<close> for the
  exception. The \<^verbatim>\<open>print\<close> calls of the script only write to the terminal and are left out;
  \<^verbatim>\<open>time.sleep\<close> only passes time and is left out as well.
\<close>

subsection \<open>Exceptions\<close>

text \<open>
  \<open>NameError n\<close>: the name \<open>n\<close> is not bound. \<open>IndexError\<close>: a list was indexed out of
  range. \<open>Raised c\<close>: an exception of class \<open>c\<close> raised by the netmiko library or by
  the operating system (a timeout, a refused login, a missing directory).
\<close>

datatype exn = NameError string | IndexError | Raised string

subsection \<open>Sequencing\<close>

text \<open>
  \<open>and_then r f\<close> continues with \<open>f\<close> on the value of \<open>r\<close> and stops at an exception;
  \<open>and_then_st\<close> does the same for a step that also returns the state it left behind.
\<close>

definition and_then :: "exn + 'a \<Rightarrow> ('a \<Rightarrow> exn + 'b) \<Rightarrow> exn + 'b" where
  "and_then r f = (case r of Inl e \<Rightarrow> Inl e | Inr v \<Rightarrow> f v)"

definition and_then_st ::
  "(exn + 'a) \<times> 's \<Rightarrow> ('a \<Rightarrow> 's \<Rightarrow> (exn + 'b) \<times> 's) \<Rightarrow> (exn + 'b) \<times> 's" where
  "and_then_st r f = (case r of (Inl e, s) \<Rightarrow> (Inl e, s) | (Inr v, s) \<Rightarrow> f v s)"

subsection \<open>The string and list operations the script uses\<close>

text \<open>\<^verbatim>\<open>xs[i]\<close>: a negative index counts from the end; out of range raises.\<close>

definition py_index :: "'a list \<Rightarrow> int \<Rightarrow> exn + 'a" where
  "py_index xs i =
     (if 0 \<le> i \<and> i < int (length xs) then Inr (xs ! nat i)
      else if i < 0 \<and> - int (length xs) \<le> i then Inr (xs ! nat (int (length xs) + i))
      else Inl IndexError)"

text \<open>\<^verbatim>\<open>sub in s\<close> on strings: \<open>sub\<close> occurs in \<open>s\<close> as a contiguous piece.\<close>

fun py_in :: "string \<Rightarrow> string \<Rightarrow> bool" where
  "py_in sub [] = (sub = [])"
| "py_in sub (c # cs) = (prefix sub (c # cs) \<or> py_in sub cs)"

text \<open>
  \<^verbatim>\<open>s.split(sep)\<close>: the text is scanned from the left, each occurrence of \<open>sep\<close> closes the
  current piece and is skipped. \<open>cur\<close> is the piece collected so far. Python raises
  ValueError for an empty separator; every call in the script passes a non-empty literal.
\<close>

function split_from :: "string \<Rightarrow> string \<Rightarrow> string \<Rightarrow> string list" where
  "split_from sep cur [] = [cur]"
| "split_from sep cur (c # cs) =
     (if sep \<noteq> [] \<and> prefix sep (c # cs)
      then cur # split_from sep [] (drop (length sep) (c # cs))
      else split_from sep (cur @ [c]) cs)"
  by pat_completeness auto
termination
  by (relation "measure (\<lambda>(sep, cur, s). length s)") auto

definition py_split :: "string \<Rightarrow> string \<Rightarrow> string list" where
  "py_split sep s = split_from sep [] s"

text \<open>
  \<^verbatim>\<open>s.split()\<close> with no argument: runs of whitespace separate the fields and no empty field
  is returned. The whitespace characters are those of \<^verbatim>\<open>str.isspace\<close> below 256.
\<close>

definition is_space :: "char \<Rightarrow> bool" where
  "is_space c = (let n = (of_char c :: nat) in
     (9 \<le> n \<and> n \<le> 13) \<or> (28 \<le> n \<and> n \<le> 32) \<or> n = 133 \<or> n = 160)"

fun fields_from :: "string \<Rightarrow> string \<Rightarrow> string list" where
  "fields_from cur [] = (if cur = [] then [] else [cur])"
| "fields_from cur (c # cs) =
     (if is_space c
      then (if cur = [] then fields_from [] cs else cur # fields_from [] cs)
      else fields_from (cur @ [c]) cs)"

definition py_split_ws :: "string \<Rightarrow> string list" where
  "py_split_ws s = fields_from [] s"

text \<open>\<^verbatim>\<open>s.replace('\n', '')\<close>.\<close>

definition remove_newlines :: "string \<Rightarrow> string" where
  "remove_newlines s = filter (\<lambda>c. c \<noteq> CHR ''\<newline>'') s"

text \<open>\<^verbatim>\<open>sep.join(xs)\<close>.\<close>

fun py_join :: "string \<Rightarrow> string list \<Rightarrow> string" where
  "py_join sep [] = []"
| "py_join sep [x] = x"
| "py_join sep (x # y # ys) = x @ sep @ py_join sep (y # ys)"

text \<open>\<^verbatim>\<open>str(n)\<close> for a non-negative integer.\<close>

definition digit_char :: "nat \<Rightarrow> char" where
  "digit_char d = ''0123456789'' ! d"

fun str_nat :: "nat \<Rightarrow> string" where
  "str_nat n = (if n < 10 then [digit_char n] else str_nat (n div 10) @ [digit_char (n mod 10)])"

subsection \<open>The neighbor parser\<close>

text \<open>
  A relation is a key (local device name, local port) with a value (remote device name,
  remote port). The Python dict is an association list in insertion order;
  \<open>AList.update\<close> replaces the value of a key already present and appends a new key, as
  \<^verbatim>\<open>dict.update\<close> does, so \<^verbatim>\<open>len\<close> of the dict is the length of the list.
\<close>

type_synonym relation = "(string \<times> string) \<times> (string \<times> string)"

text \<open>\<^verbatim>\<open>while '' in neighbors: neighbors.remove('')\<close>\<close>

function remove_empty :: "string list \<Rightarrow> string list" where
  "remove_empty neighbors =
     (if [] \<in> set neighbors then remove_empty (remove1 [] neighbors) else neighbors)"
  by pat_completeness auto
termination
proof (relation "measure length")
  fix neighbors :: "string list"
  assume "[] \<in> set neighbors"
  then have "0 < length neighbors"
    by (rule length_pos_if_in_set)
  then show "(remove1 [] neighbors, neighbors) \<in> measure length"
    using \<open>[] \<in> set neighbors\<close> by (simp add: length_remove1)
qed simp

text \<open>
  The relation built from one line (line 162). The fields are indexed in the order the
  expression evaluates them: 1, 2, 0, -2, -1.
\<close>

definition neighbor_entry :: "string \<Rightarrow> string \<Rightarrow> exn + relation" where
  "neighbor_entry device_name neighbor_line =
     (let fs = py_split_ws neighbor_line in
      and_then (py_index fs 1) (\<lambda>f1.
      and_then (py_index fs 2) (\<lambda>f2.
      and_then (py_index fs 0) (\<lambda>f0.
      and_then (py_index fs (- 2)) (\<lambda>p.
      and_then (py_index fs (- 1)) (\<lambda>q.
        Inr ((device_name, f1 @ f2), (f0, p @ q))))))))"

text \<open>The \<^verbatim>\<open>for neighbor_line in neighbors\<close> loop over the dict built so far.\<close>

fun for_neighbors :: "string \<Rightarrow> string list \<Rightarrow> relation list \<Rightarrow> exn + relation list" where
  "for_neighbors device_name [] connections_dict = Inr connections_dict"
| "for_neighbors device_name (neighbor_line # rest) connections_dict =
     (case neighbor_entry device_name neighbor_line of
        Inl e \<Rightarrow> Inl e
      | Inr (k, v) \<Rightarrow> for_neighbors device_name rest (AList.update k v connections_dict))"

definition parse_cdp_nei :: "string \<Rightarrow> exn + relation list" where
  "parse_cdp_nei cdp_nei_output =
     (case py_index (py_split ''>'' cdp_nei_output) 0 of
        Inl e \<Rightarrow> Inl e
      | Inr header \<Rightarrow>
          (let device_name = remove_newlines header in
           (case py_index (py_split ''Port ID'' cdp_nei_output) 1 of
              Inl e \<Rightarrow> Inl e
            | Inr body \<Rightarrow>
                (let neighbors = remove_empty (py_split ''\<newline>'' body)
                 in for_neighbors device_name neighbors []))))"

subsection \<open>The connection to a device\<close>

text \<open>
  A connection is the netmiko object the steps call. What the device at the other end
  answers is outside the script, so it is a parameter: \<open>remote\<close> gives the outcome of a
  call from the calls made before it and their outcomes (a text, or an exception raised
  by the library). \<open>transcript\<close> is the list of calls made so far with their outcomes.
\<close>

datatype call = Enable | SendCommand string | SendConfigSet string | Disconnect

type_synonym outcome = "exn + string"

type_synonym remote = "(call \<times> outcome) list \<Rightarrow> call \<Rightarrow> outcome"

record connection =
  remote :: remote
  transcript :: "(call \<times> outcome) list"

definition invoke :: "connection \<Rightarrow> call \<Rightarrow> outcome \<times> connection" where
  "invoke c x =
     (let r = remote c (transcript c) x
      in (r, c\<lparr>transcript := transcript c @ [(x, r)]\<rparr>))"

definition enable :: "connection \<Rightarrow> outcome \<times> connection" where
  "enable c = invoke c Enable"

definition send_command :: "connection \<Rightarrow> string \<Rightarrow> outcome \<times> connection" where
  "send_command c cmd = invoke c (SendCommand cmd)"

definition send_config_set :: "connection \<Rightarrow> string \<Rightarrow> outcome \<times> connection" where
  "send_config_set c cmd = invoke c (SendConfigSet cmd)"

definition disconnect :: "connection \<Rightarrow> outcome \<times> connection" where
  "disconnect c = invoke c Disconnect"

text \<open>A session is open until \<^verbatim>\<open>disconnect\<close> has been called on it.\<close>

definition session_closed :: "connection \<Rightarrow> bool" where
  "session_closed c = (Disconnect \<in> set (map fst (transcript c)))"

subsection \<open>The handler of every step\<close>

text \<open>
  Every step is \<^verbatim>\<open>try: ... except Error: ... return False\<close>. The module neither defines
  nor imports a name \<^verbatim>\<open>Error\<close> (it imports \<^verbatim>\<open>ConnectHandler\<close>, \<^verbatim>\<open>re\<close>, \<^verbatim>\<open>csv\<close>,
  \<^verbatim>\<open>sys\<close>, \<^verbatim>\<open>os\<close>, \<^verbatim>\<open>logging\<close>, \<^verbatim>\<open>datetime\<close>, \<^verbatim>\<open>time\<close> and \<^verbatim>\<open>multiprocessing\<close>).
  Python evaluates the expression of an \<^verbatim>\<open>except\<close> clause only when the body has raised,
  so a body that returns is untouched, and a body that raises makes the lookup of
  \<^verbatim>\<open>Error\<close> raise NameError in place of the exception; the handler's
  \<^verbatim>\<open>return False\<close> is never reached.
\<close>

definition except_Error :: "(exn + 'a) \<times> 's \<Rightarrow> (exn + 'a) \<times> 's" where
  "except_Error r =
     (case r of (Inl e, s) \<Rightarrow> (Inl (NameError ''Error''), s) | (Inr v, s) \<Rightarrow> (Inr v, s))"

subsection \<open>The steps on an open connection\<close>

definition check_cdp :: "connection \<Rightarrow> string \<Rightarrow> (exn + string) \<times> connection" where
  "check_cdp connection hostname = except_Error
     (and_then_st (enable connection) (\<lambda>_ c1.
      and_then_st (send_command c1 ''sho run | in no cdp run'') (\<lambda>output c2.
      and_then_st (if \<not> py_in ''no cdp run'' output then (Inr output, c2)
                   else send_config_set c2 ''cdp run'') (\<lambda>_ c3.
      and_then_st (send_command c3 ''sho cdp neigh'') (\<lambda>output c4.
      and_then_st (parse_cdp_nei output, c4) (\<lambda>connections_dict c5.
        (let cdp_neigh_num = length connections_dict
         in if cdp_neigh_num \<noteq> 0
            then (Inr (''CDP is on, '' @ str_nat cdp_neigh_num @ '' peers''), c5)
            else (Inr ''CDP is off'', c5))))))))"

definition config_ntp :: "connection \<Rightarrow> string \<Rightarrow> string \<Rightarrow> (exn + string) \<times> connection" where
  "config_ntp connection hostname ntp_type = except_Error
     (and_then_st (enable connection) (\<lambda>_ c1.
      and_then_st (send_config_set c1 ''clock timezone GMT 0'') (\<lambda>output c2.
      and_then_st (if ntp_type = ''server'' then send_config_set c2 ''ntp master''
                   else if ntp_type = ''client''
                        then send_config_set c2 ''ntp server 192.168.194.101''
                        else (Inr output, c2)) (\<lambda>_ c3.
      and_then_st (send_command c3 ''sho ntp status'') (\<lambda>output c4.
        if py_in ''Clock is synchronized'' output
        then (Inr ''Clock in Sync'', c4)
        else (Inr ''Clock not in Sync'', c4))))))"

text \<open>
  \<^verbatim>\<open>if 'k9' or 'K9' in output\<close> is \<^verbatim>\<open>'k9' or ('K9' in output)\<close>: the left operand of
  \<^verbatim>\<open>or\<close> is the string \<^verbatim>\<open>'k9'\<close> itself, and a string is true when it is not empty.
\<close>

definition py_truthy :: "string \<Rightarrow> bool" where
  "py_truthy s = (s \<noteq> [])"

definition Check_NPE :: "connection \<Rightarrow> string \<Rightarrow> (exn + string) \<times> connection" where
  "Check_NPE connection hostname = except_Error
     (and_then_st (enable connection) (\<lambda>_ c1.
      and_then_st (send_command c1 ''sho ver | in IOS'') (\<lambda>output c2.
        if py_truthy ''k9'' \<or> py_in ''K9'' output
        then (Inr ''PE'', c2)
        else (Inr ''NPE'', c2))))"

definition Check_ver :: "connection \<Rightarrow> string \<Rightarrow> (exn + string) \<times> connection" where
  "Check_ver connection hostname = except_Error
     (and_then_st (enable connection) (\<lambda>_ c1.
      and_then_st (send_command c1 ''sho ver | in IOS'') (\<lambda>output c2.
      and_then_st (py_index (py_split '','' output) 2, c2) (\<lambda>ver c3.
        (Inr ver, c3)))))"

definition Check_dev_pid :: "connection \<Rightarrow> string \<Rightarrow> (exn + string) \<times> connection" where
  "Check_dev_pid connection hostname = except_Error
     (and_then_st (enable connection) (\<lambda>_ c1.
      and_then_st (send_command c1 ''sho ver | in IOS'') (\<lambda>output c2.
      and_then_st (py_index (py_split '','' output) 1, c2) (\<lambda>field c3.
      and_then_st (py_index (py_split ''Software'' field) 0, c3) (\<lambda>dev_pid c4.
        (Inr dev_pid, c4))))))"

definition disconnect_from_device :: "connection \<Rightarrow> string \<Rightarrow> (exn + unit) \<times> connection" where
  "disconnect_from_device connection hostname =
     and_then_st (disconnect connection) (\<lambda>_ c1. (Inr (), c1))"

subsection \<open>The backup files\<close>

text \<open>
  The file system is shared with the other workers and with the rest of the machine, so
  what a call meets there is a parameter as well: whether a path exists, and whether
  creating a directory or writing a file raises. \<open>script_dir\<close> is \<^verbatim>\<open>sys.path[0]\<close>;
  \<open>dirs\<close> and \<open>files\<close> record what the worker created and wrote.
\<close>

record filesys =
  script_dir :: string
  path_exists :: "string \<Rightarrow> bool"
  mkdir_raises :: "string \<Rightarrow> exn option"
  write_raises :: "string \<Rightarrow> exn option"
  dirs :: "string list"
  files :: "(string \<times> string) list"

text \<open>\<^verbatim>\<open>os.path.join\<close> on a POSIX system.\<close>

fun join_onto :: "string \<Rightarrow> string list \<Rightarrow> string" where
  "join_onto path [] = path"
| "join_onto path (b # bs) =
     (if prefix ''/'' b then join_onto b bs
      else if path = [] \<or> suffix ''/'' path then join_onto (path @ b) bs
      else join_onto (path @ ''/'' @ b) bs)"

definition os_path_join :: "string \<Rightarrow> string list \<Rightarrow> string" where
  "os_path_join a p = join_onto a p"

definition BACKUP_DIR_PATH :: "filesys \<Rightarrow> string" where
  "BACKUP_DIR_PATH fs = os_path_join (script_dir fs) [''backups'']"

definition os_mkdir :: "filesys \<Rightarrow> string \<Rightarrow> (exn + unit) \<times> filesys" where
  "os_mkdir fs path =
     (case mkdir_raises fs path of
        Some e \<Rightarrow> (Inl e, fs)
      | None \<Rightarrow> (Inr (), fs\<lparr>dirs := dirs fs @ [path]\<rparr>))"

text \<open>\<^verbatim>\<open>with open(path, 'w') as file: file.write(output)\<close>\<close>

definition write_file :: "filesys \<Rightarrow> string \<Rightarrow> string \<Rightarrow> (exn + unit) \<times> filesys" where
  "write_file fs path output =
     (case write_raises fs path of
        Some e \<Rightarrow> (Inl e, fs)
      | None \<Rightarrow> (Inr (), fs\<lparr>files := files fs @ [(path, output)]\<rparr>))"

definition get_backup_file_path :: "filesys \<Rightarrow> string \<Rightarrow> string \<Rightarrow> (exn + string) \<times> filesys" where
  "get_backup_file_path fs hostname timestamp =
     and_then_st (if \<not> path_exists fs (os_path_join (BACKUP_DIR_PATH fs) [hostname])
                  then os_mkdir fs (os_path_join (BACKUP_DIR_PATH fs) [hostname])
                  else (Inr (), fs)) (\<lambda>_ fs1.
       (Inr (os_path_join (BACKUP_DIR_PATH fs1)
               [hostname, hostname @ ''-'' @ timestamp @ ''.txt'']), fs1))"

definition create_backup ::
  "filesys \<Rightarrow> connection \<Rightarrow> string \<Rightarrow> string \<Rightarrow> (exn + bool) \<times> filesys \<times> connection" where
  "create_backup fs connection backup_file_path hostname = except_Error
     (case enable connection of
        (Inl e, c1) \<Rightarrow> (Inl e, fs, c1)
      | (Inr _, c1) \<Rightarrow>
          (case send_command c1 ''sh run'' of
             (Inl e, c2) \<Rightarrow> (Inl e, fs, c2)
           | (Inr output, c2) \<Rightarrow>
               (case write_file fs backup_file_path output of
                  (Inl e, fs1) \<Rightarrow> (Inl e, fs1, c2)
                | (Inr _, fs1) \<Rightarrow> (Inr True, fs1, c2))))"

subsection \<open>One device\<close>

text \<open>
  A row of the inventory, with the columns the script reads. \<open>ConnectHandler\<close> is the
  library's constructor: it raises, or gives the behaviour of the device reached.
\<close>

record device =
  ip :: string
  username :: string
  password :: string
  device_type :: string
  hostname :: string
  ntp_type :: string

record world =
  ConnectHandler :: "device \<Rightarrow> exn + remote"
  filesystem :: filesys

definition connect_to_device :: "world \<Rightarrow> device \<Rightarrow> exn + connection" where
  "connect_to_device w device =
     and_then (ConnectHandler w device) (\<lambda>r. Inr \<lparr>remote = r, transcript = []\<rparr>)"

text \<open>
  \<open>process_target\<close> returns what the Python function returns or raises, together with
  the file system it leaves and the connection it leaves (\<open>None\<close> when none was opened).
  Nothing in it catches an exception: the first step that raises ends it.
\<close>

definition process_target ::
  "world \<Rightarrow> device \<Rightarrow> string \<Rightarrow> (exn + string) \<times> filesys \<times> connection option" where
  "process_target w device timestamp =
     (case connect_to_device w device of
        Inl e \<Rightarrow> (Inl e, filesystem w, None)
      | Inr connection \<Rightarrow>
     (case get_backup_file_path (filesystem w) (hostname device) timestamp of
        (Inl e, fs1) \<Rightarrow> (Inl e, fs1, Some connection)
      | (Inr backup_file_path, fs1) \<Rightarrow>
     (case create_backup fs1 connection backup_file_path (hostname device) of
        (Inl e, fs2, c1) \<Rightarrow> (Inl e, fs2, Some c1)
      | (Inr backup_result, fs2, c1) \<Rightarrow>
     (case Check_dev_pid c1 (hostname device) of
        (Inl e, c2) \<Rightarrow> (Inl e, fs2, Some c2)
      | (Inr pid, c2) \<Rightarrow>
     (case Check_ver c2 (hostname device) of
        (Inl e, c3) \<Rightarrow> (Inl e, fs2, Some c3)
      | (Inr ver, c3) \<Rightarrow>
     (case check_cdp c3 (hostname device) of
        (Inl e, c4) \<Rightarrow> (Inl e, fs2, Some c4)
      | (Inr cdp, c4) \<Rightarrow>
     (case Check_NPE c4 (hostname device) of
        (Inl e, c5) \<Rightarrow> (Inl e, fs2, Some c5)
      | (Inr npe, c5) \<Rightarrow>
     (case config_ntp c5 (hostname device) (ntp_type device) of
        (Inl e, c6) \<Rightarrow> (Inl e, fs2, Some c6)
      | (Inr ntp, c6) \<Rightarrow>
     (case disconnect_from_device c6 (hostname device) of
        (Inl e, c7) \<Rightarrow> (Inl e, fs2, Some c7)
      | (Inr _, c7) \<Rightarrow>
          (Inr (hostname device @ ''|'' @ pid @ ''|'' @ ver @ ''|'' @ npe @ ''|'' @ cdp
                @ ''|'' @ ntp), fs2, Some c7))))))))))"

subsection \<open>The run\<close>

text \<open>
  \<^verbatim>\<open>main\<close> hands one task per inventory row to a pool of four workers and then calls
  \<^verbatim>\<open>get()\<close> on the tasks in inventory order. A task's \<^verbatim>\<open>get()\<close> returns what
  \<open>process_target\<close> returned, or raises what it raised. The tasks share no state of the
  script, so the outcome of the task of row \<open>i\<close> is \<open>process_target\<close> in the world
  \<open>worlds i\<close> that its worker meets; the inventory and the timestamp are read before the
  pool starts and are parameters. \<open>get_all\<close> is the loop
  \<^verbatim>\<open>for process in processes: result.append(process.get())\<close>.
\<close>

fun get_all :: "(exn + string) list \<Rightarrow> string list \<Rightarrow> exn + string list" where
  "get_all [] result = Inr result"
| "get_all (process # rest) result =
     (case process of
        Inl e \<Rightarrow> Inl e
      | Inr temp_str \<Rightarrow> get_all rest (result @ [temp_str]))"

definition apply_async :: "(nat \<Rightarrow> world) \<Rightarrow> string \<Rightarrow> device list \<Rightarrow> (exn + string) list" where
  "apply_async worlds timestamp device_list =
     map (\<lambda>(i, device). fst (process_target (worlds i) device timestamp))
       (enumerate 0 device_list)"

text \<open>
  \<open>collect_results\<close> is the list \<^verbatim>\<open>result\<close> when the pool block is left, or the exception
  that ended \<^verbatim>\<open>main\<close> there; \<open>main\<close> is the text written to \<^verbatim>\<open>result.txt\<close>, which is
  written only when the pool block was left without an exception.
\<close>

definition collect_results :: "(nat \<Rightarrow> world) \<Rightarrow> string \<Rightarrow> device list \<Rightarrow> exn + string list" where
  "collect_results worlds timestamp device_list =
     get_all (apply_async worlds timestamp device_list) []"

definition main :: "(nat \<Rightarrow> world) \<Rightarrow> string \<Rightarrow> device list \<Rightarrow> exn + string" where
  "main worlds timestamp device_list =
     and_then (collect_results worlds timestamp device_list)
       (\<lambda>result. Inr (py_join ''\<newline>'' result))"

subsection \<open>Devices used at concrete inputs\<close>

text \<open>
  \<open>router_R1\<close> answers like a router with one neighbor and a synchronized clock, whose
  image is not a k9 image. \<open>router_bare\<close> answers the version query with a banner that
  has no comma. \<open>router_no_cdp\<close> answers the neighbor query with a refusal that has no
  \<^verbatim>\<open>Port ID\<close> column. \<open>router_alone\<close> has discovery on and no neighbor;
  \<open>router_cdp_off\<close> has discovery switched off in its configuration and one neighbor.
\<close>

definition banner_2800 :: string where
  "banner_2800 = ''Cisco IOS Software, 2800 Software (C2800NM-IPBASE-M), Version 12.4(24)T, RELEASE SOFTWARE (fc1)''"

definition neighbors_R1 :: string where
  "neighbors_R1 = ''R1>show cdp neighbors\<newline>Device ID  Local Intrfce  Holdtme  Capability  Platform  Port ID\<newline>R2  Gig 0/1  150  R S I  3725  Gig 0/2\<newline>''"

definition neighbors_none :: string where
  "neighbors_none = ''Device ID  Local Intrfce  Holdtme  Capability  Platform  Port ID\<newline>''"

definition router :: "string \<Rightarrow> string \<Rightarrow> string \<Rightarrow> string \<Rightarrow> remote" where
  "router ver cdp_conf nei ntp h x =
     (case x of
        SendCommand cmd \<Rightarrow>
          (if cmd = ''sho ver | in IOS'' then Inr ver
           else if cmd = ''sho run | in no cdp run'' then Inr cdp_conf
           else if cmd = ''sho cdp neigh'' then Inr nei
           else if cmd = ''sho ntp status'' then Inr ntp
           else Inr [])
      | _ \<Rightarrow> Inr [])"

definition router_R1 :: remote where
  "router_R1 = router banner_2800 [] neighbors_R1 ''Clock is synchronized, stratum 8''"

definition router_bare :: remote where
  "router_bare = router ''Cisco IOS Software'' [] neighbors_R1 ''Clock is synchronized, stratum 8''"

definition router_no_cdp :: remote where
  "router_no_cdp = router banner_2800 [] ''% CDP is not enabled'' ''Clock is synchronized, stratum 8''"

definition router_alone :: remote where
  "router_alone = router banner_2800 [] neighbors_none ''Clock is unsynchronized''"

definition router_cdp_off :: remote where
  "router_cdp_off = router banner_2800 ''no cdp run'' neighbors_R1 ''Clock is unsynchronized''"

definition on_line :: "remote \<Rightarrow> connection" where
  "on_line r = \<lparr>remote = r, transcript = []\<rparr>"

definition dev :: "string \<Rightarrow> string \<Rightarrow> device" where
  "dev a h = \<lparr>ip = a, username = ''admin'', password = ''cisco'', device_type = ''cisco_ios'',
     hostname = h, ntp_type = ''client''\<rparr>"

definition disk :: filesys where
  "disk = \<lparr>script_dir = ''/opt/marathon'', path_exists = (\<lambda>p. False),
     mkdir_raises = (\<lambda>p. None), write_raises = (\<lambda>p. None), dirs = [], files = []\<rparr>"

definition run_stamp :: string where
  "run_stamp = ''2026_01_01-00_00_00''"

text \<open>
  A network in which \<^verbatim>\<open>10.0.0.1\<close> is \<open>router_R1\<close>, \<^verbatim>\<open>10.0.0.2\<close> is \<open>router_bare\<close>,
  \<^verbatim>\<open>10.0.0.3\<close> is \<open>router_no_cdp\<close>, and every other address times out.
\<close>

definition lab :: world where
  "lab = \<lparr>ConnectHandler = (\<lambda>d.
            if ip d = ''10.0.0.1'' then Inr router_R1
            else if ip d = ''10.0.0.2'' then Inr router_bare
            else if ip d = ''10.0.0.3'' then Inr router_no_cdp
            else Inl (Raised ''NetmikoTimeoutException'')),
          filesystem = disk\<rparr>"

subsection \<open>The shape of a neighbor text\<close>

text \<open>
  These definitions state what the parser is expected to produce; they are not part of
  the script. \<open>local_name\<close> is the header before the prompt marker, without its
  newlines. \<open>table_lines\<close> are the non-empty lines after the \<^verbatim>\<open>Port ID\<close> marker (up to
  a second marker, if there is one). \<open>line_relation\<close> is the relation of one line: key
  (local name, second and third field joined), value (first field, last two fields
  joined). \<open>lines_ok\<close>: every line of the table has the three fields that the key and the
  value are taken from. A well-formed text has the prompt marker, the \<^verbatim>\<open>Port ID\<close> marker
  and such lines.
\<close>

definition local_name :: "string \<Rightarrow> string" where
  "local_name raw = remove_newlines (takeWhile (\<lambda>c. c \<noteq> CHR ''>'') raw)"

definition table_lines :: "string \<Rightarrow> string list" where
  "table_lines raw =
     filter (\<lambda>line. line \<noteq> []) (py_split ''\<newline>'' (py_split ''Port ID'' raw ! 1))"

definition line_relation :: "string \<Rightarrow> string \<Rightarrow> relation" where
  "line_relation name line =
     (let fs = py_split_ws line; n = length fs
      in ((name, fs ! 1 @ fs ! 2), (fs ! 0, fs ! (n - 2) @ fs ! (n - 1))))"

definition lines_ok :: "string \<Rightarrow> bool" where
  "lines_ok raw = list_all (\<lambda>line. 3 \<le> length (py_split_ws line)) (table_lines raw)"

definition well_formed :: "string \<Rightarrow> bool" where
  "well_formed raw = (py_in ''>'' raw \<and> py_in ''Port ID'' raw \<and> lines_ok raw)"

section \<open>Properties\<close>

subsection \<open>The string operations\<close>

lemma py_in_iff: "py_in sub s \<longleftrightarrow> (\<exists>p q. s = p @ sub @ q)"
proof (induction s)
  case Nil
  then show ?case by auto
next
  case (Cons c cs)
  show ?case
  proof
    assume "py_in sub (c # cs)"
    then consider "prefix sub (c # cs)" | "py_in sub cs" by auto
    then show "\<exists>p q. c # cs = p @ sub @ q"
    proof cases
      case 1
      then obtain q where "c # cs = sub @ q" by (auto simp: prefix_def)
      then have "c # cs = [] @ sub @ q" by simp
      then show ?thesis by blast
    next
      case 2
      with Cons.IH obtain p q where "cs = p @ sub @ q" by blast
      then have "c # cs = (c # p) @ sub @ q" by simp
      then show ?thesis by blast
    qed
  next
    assume "\<exists>p q. c # cs = p @ sub @ q"
    then obtain p q where pq: "c # cs = p @ sub @ q" by blast
    show "py_in sub (c # cs)"
    proof (cases p)
      case Nil
      with pq have "prefix sub (c # cs)" by (simp add: prefix_def)
      then show ?thesis by simp
    next
      case (Cons a p')
      with pq have "cs = p' @ sub @ q" by simp
      with Cons.IH have "py_in sub cs" by blast
      then show ?thesis by simp
    qed
  qed
qed

lemma py_in_char: "py_in [c] s \<longleftrightarrow> c \<in> set s"
  by (induction s) auto

lemma split_from_not_Nil: "split_from sep cur s \<noteq> []"
  by (induction sep cur s rule: split_from.induct) auto

lemma split_from_char_absent: "c \<notin> set s \<Longrightarrow> split_from [c] cur s = [cur @ s]"
  by (induction s arbitrary: cur) auto

lemma hd_split_from_char: "hd (split_from [c] cur s) = cur @ takeWhile (\<lambda>x. x \<noteq> c) s"
  by (induction s arbitrary: cur) auto

lemma split_from_length: "sep \<noteq> [] \<Longrightarrow> (1 < length (split_from sep cur s)) = py_in sep s"
proof (induction sep cur s rule: split_from.induct)
  case (1 sep cur)
  then show ?case by simp
next
  case (2 sep cur c cs)
  then show ?case
    using split_from_not_Nil [of sep "[]" "drop (length sep) (c # cs)"]
    by (auto simp: Suc_lessI)
qed

lemma remove_empty_filter: "remove_empty xs = filter (\<lambda>l. l \<noteq> []) xs"
proof (induction xs rule: remove_empty.induct)
  case (1 neighbors)
  show ?case
  proof (cases "[] \<in> set neighbors")
    case True
    have "filter (\<lambda>l. l \<noteq> []) (remove1 [] neighbors) = filter (\<lambda>l. l \<noteq> []) neighbors"
      by (induction neighbors) auto
    with True 1 show ?thesis by (simp del: remove_empty.simps add: remove_empty.simps [of neighbors])
  next
    case False
    then have "filter (\<lambda>l. l \<noteq> []) neighbors = neighbors"
      by (induction neighbors) auto
    with False show ?thesis by simp
  qed
qed

lemma neighbor_entry_ok:
  "3 \<le> length (py_split_ws line) \<Longrightarrow> neighbor_entry name line = Inr (line_relation name line)"
  by (auto simp: neighbor_entry_def line_relation_def and_then_def py_index_def Let_def nat_diff_distrib)

lemma neighbor_entry_short:
  "length (py_split_ws line) < 3 \<Longrightarrow> neighbor_entry name line = Inl IndexError"
  by (auto simp: neighbor_entry_def and_then_def py_index_def Let_def)

subsection \<open>The parser\<close>

lemma for_neighbors_ok:
  "list_all (\<lambda>line. 3 \<le> length (py_split_ws line)) ls \<Longrightarrow>
   for_neighbors name ls d =
     Inr (fold (\<lambda>line. AList.update (fst (line_relation name line)) (snd (line_relation name line))) ls d)"
proof (induction ls arbitrary: d)
  case Nil
  then show ?case by simp
next
  case (Cons l ls)
  then have "neighbor_entry name l = Inr (line_relation name l)"
    by (simp add: neighbor_entry_ok)
  with Cons show ?case
    by (simp add: case_prod_beta)
qed

lemma for_neighbors_short:
  "\<not> list_all (\<lambda>line. 3 \<le> length (py_split_ws line)) ls \<Longrightarrow> for_neighbors name ls d = Inl IndexError"
proof (induction ls arbitrary: d)
  case Nil
  then show ?case by simp
next
  case (Cons l ls)
  show ?case
  proof (cases "3 \<le> length (py_split_ws l)")
    case True
    with Cons show ?thesis by (simp add: neighbor_entry_ok case_prod_beta)
  next
    case False
    then show ?thesis by (simp add: neighbor_entry_short)
  qed
qed

lemma map_upd_add: "(m(k \<mapsto> v)) ++ n = m ++ ([k \<mapsto> v] ++ n)"
  by (rule ext) (simp add: map_add_def split: option.splits)

lemma map_of_fold_update:
  "map_of (fold (\<lambda>x. AList.update (fst (f x)) (snd (f x))) xs d) = map_of d ++ map_of (rev (map f xs))"
proof (induction xs arbitrary: d)
  case Nil
  then show ?case by simp
next
  case (Cons x xs)
  have one: "map_of ([f x]) = [fst (f x) \<mapsto> snd (f x)]"
    by (cases "f x") simp
  have "map_of (fold (\<lambda>x. AList.update (fst (f x)) (snd (f x))) (x # xs) d)
        = (map_of d)(fst (f x) \<mapsto> snd (f x)) ++ map_of (rev (map f xs))"
    using Cons.IH [of "AList.update (fst (f x)) (snd (f x)) d"] by (simp only: fold_simps update_conv')
  also have "\<dots> = map_of d ++ ([fst (f x) \<mapsto> snd (f x)] ++ map_of (rev (map f xs)))"
    by (rule map_upd_add)
  also have "\<dots> = map_of d ++ map_of (rev (map f (x # xs)))"
    by (simp only: list.map rev.simps map_of_append one)
  finally show ?case .
qed

lemma distinct_fold_update:
  "distinct (map fst d) \<Longrightarrow> distinct (map fst (fold (\<lambda>x. AList.update (fst (f x)) (snd (f x))) xs d))"
  by (induction xs arbitrary: d) (auto simp: distinct_update)

lemma fold_update_fresh:
  "distinct (map (\<lambda>x. fst (f x)) xs) \<Longrightarrow> (\<forall>x \<in> set xs. fst (f x) \<notin> fst ` set d) \<Longrightarrow>
   fold (\<lambda>x. AList.update (fst (f x)) (snd (f x))) xs d = d @ map f xs"
proof (induction xs arbitrary: d)
  case Nil
  then show ?case by simp
next
  case (Cons x xs)
  have fresh: "fst (f x) \<notin> fst ` set d" using Cons.prems by simp
  have upd: "AList.update (fst (f x)) (snd (f x)) d = d @ [f x]"
    using fresh by (induction d) auto
  have "\<forall>y \<in> set xs. fst (f y) \<notin> fst ` set (d @ [f x])"
    using Cons.prems by (auto simp: image_iff)
  with Cons have "fold (\<lambda>x. AList.update (fst (f x)) (snd (f x))) xs (d @ [f x]) = (d @ [f x]) @ map f xs"
    by simp
  with upd show ?case by simp
qed

lemma header_never_raises: "py_index (py_split ''>'' raw) 0 = Inr (takeWhile (\<lambda>c. c \<noteq> CHR ''>'') raw)"
  using split_from_not_Nil [of "''>''" "[]" raw] hd_split_from_char [of "CHR ''>''" "[]" raw]
  by (simp add: py_index_def py_split_def Let_def hd_conv_nth)

lemma body_index:
  "py_index (py_split ''Port ID'' raw) 1 =
     (if py_in ''Port ID'' raw then Inr (py_split ''Port ID'' raw ! 1) else Inl IndexError)"
  using split_from_length [of "''Port ID''" "[]" raw]
  by (auto simp: py_index_def py_split_def Let_def)

lemma parse_cdp_nei_unfold:
  "parse_cdp_nei raw =
     (if py_in ''Port ID'' raw
      then for_neighbors (local_name raw) (table_lines raw) []
      else Inl IndexError)"
  unfolding parse_cdp_nei_def header_never_raises body_index local_name_def table_lines_def
    remove_empty_filter Let_def
  by simp

lemma parse_cdp_nei_eq:
  "parse_cdp_nei raw =
     (if \<not> py_in ''Port ID'' raw then Inl IndexError
      else if \<not> lines_ok raw then Inl IndexError
      else Inr (fold (\<lambda>line. AList.update (fst (line_relation (local_name raw) line))
                                           (snd (line_relation (local_name raw) line)))
                  (table_lines raw) []))"
proof (cases "py_in ''Port ID'' raw")
  case False
  then show ?thesis by (simp only: parse_cdp_nei_unfold if_False if_True not_False_eq_True)
next
  case True
  show ?thesis
  proof (cases "lines_ok raw")
    case ok: True
    then have "for_neighbors (local_name raw) (table_lines raw) [] =
      Inr (fold (\<lambda>line. AList.update (fst (line_relation (local_name raw) line))
                                           (snd (line_relation (local_name raw) line)))
                  (table_lines raw) [])"
      unfolding lines_ok_def by (rule for_neighbors_ok)
    with True ok show ?thesis
      by (simp only: parse_cdp_nei_unfold if_True not_True_eq_False if_False)
  next
    case bad: False
    then have "for_neighbors (local_name raw) (table_lines raw) [] = Inl IndexError"
      unfolding lines_ok_def by (rule for_neighbors_short)
    with True bad show ?thesis
      by (simp only: parse_cdp_nei_unfold if_True not_True_eq_False if_False not_False_eq_True)
  qed
qed

lemma keys_fold_update:
  "fst ` set (fold (\<lambda>x. AList.update (fst (f x)) (snd (f x))) xs d) = fst ` set d \<union> fst ` f ` set xs"
  by (induction xs arbitrary: d) (auto simp: dom_update)

lemma takeWhile_absent: "c \<notin> set s \<Longrightarrow> takeWhile (\<lambda>x. x \<noteq> c) s = s"
  by (induction s) auto

lemma local_name_without_prompt: "\<not> py_in ''>'' raw \<Longrightarrow> local_name raw = remove_newlines raw"
  by (simp add: local_name_def py_in_char takeWhile_absent)

lemma line_relation_name: "fst (fst (line_relation name line)) = name"
  by (simp add: line_relation_def Let_def)

text \<open>
  Claim C6. For every well-formed neighbor text the parser succeeds, and the dict it
  returns holds, for each line of the table, the key (local device name from the header
  before the prompt marker, second and third field joined) with the value (first field,
  last two fields joined): looking a key up gives the value of the last line with that
  key, the keys are those of the lines, and when no two lines share a key the dict is
  the list of the lines' relations in order. The witness is the text of the spec's
  scenario: header \<^verbatim>\<open>R1>\<close>, one line \<^verbatim>\<open>R2 Gig 0/1 ... Gig 0/2\<close>.
\<close>

theorem parse_cdp_nei_relations:
  assumes "well_formed raw"
  shows "\<exists>rels. parse_cdp_nei raw = Inr rels
     \<and> map_of rels = map_of (rev (map (line_relation (local_name raw)) (table_lines raw)))
     \<and> fst ` set rels = fst ` line_relation (local_name raw) ` set (table_lines raw)
     \<and> distinct (map fst rels)
     \<and> (distinct (map (\<lambda>line. fst (line_relation (local_name raw) line)) (table_lines raw))
          \<longrightarrow> rels = map (line_relation (local_name raw)) (table_lines raw))"
proof -
  let ?f = "line_relation (local_name raw)"
  let ?rels = "fold (\<lambda>line. AList.update (fst (?f line)) (snd (?f line))) (table_lines raw) []"
  from assms have "py_in ''Port ID'' raw" and "lines_ok raw"
    by (simp_all add: well_formed_def)
  then have p: "parse_cdp_nei raw = Inr ?rels"
    by (simp only: parse_cdp_nei_eq not_True_eq_False if_False)
  have m: "map_of ?rels = map_of (rev (map ?f (table_lines raw)))"
    by (simp add: map_of_fold_update)
  have k: "fst ` set ?rels = fst ` ?f ` set (table_lines raw)"
    by (simp add: keys_fold_update)
  have d: "distinct (map fst ?rels)"
    by (rule distinct_fold_update) simp
  have e: "distinct (map (\<lambda>line. fst (?f line)) (table_lines raw)) \<longrightarrow> ?rels = map ?f (table_lines raw)"
    using fold_update_fresh [of ?f "table_lines raw" "[]"] by simp
  from p m k d e show ?thesis by blast
qed

theorem parse_cdp_nei_relations_witness:
  "well_formed neighbors_R1 \<and>
   parse_cdp_nei neighbors_R1 = Inr [((''R1'', ''Gig0/1''), (''R2'', ''Gig0/2''))]"
proof -
  have wf: "well_formed neighbors_R1"
    by code_simp
  have d: "distinct (map (\<lambda>line. fst (line_relation (local_name neighbors_R1) line)) (table_lines neighbors_R1))"
    by code_simp
  have m: "map (line_relation (local_name neighbors_R1)) (table_lines neighbors_R1)
           = [((''R1'', ''Gig0/1''), (''R2'', ''Gig0/2''))]"
    by code_simp
  from parse_cdp_nei_relations [OF wf] d m wf show ?thesis
    by auto
qed

text \<open>
  Claim C10, as amended. For a text with the \<^verbatim>\<open>Port ID\<close> marker and no prompt marker,
  whose table lines all have at least three fields, the header extraction returns the
  whole text, the parser succeeds, and the local device name of every key is the whole
  text without its newlines. The condition on the lines is needed: the counterexample
  is a text with the marker, without a prompt marker, whose only line has one field;
  there the parser raises IndexError.
\<close>

theorem parse_cdp_nei_without_prompt:
  assumes "py_in ''Port ID'' raw" and "\<not> py_in ''>'' raw" and "lines_ok raw"
  shows "py_index (py_split ''>'' raw) 0 = Inr raw
     \<and> (\<exists>rels. parse_cdp_nei raw = Inr rels
          \<and> (\<forall>r \<in> set rels. fst (fst r) = remove_newlines raw)
          \<and> map_of rels = map_of (rev (map (line_relation (remove_newlines raw)) (table_lines raw))))"
proof -
  let ?f = "line_relation (local_name raw)"
  let ?rels = "fold (\<lambda>line. AList.update (fst (?f line)) (snd (?f line))) (table_lines raw) []"
  have n: "local_name raw = remove_newlines raw"
    using assms(2) by (rule local_name_without_prompt)
  have "CHR ''>'' \<notin> set raw"
    using assms(2) by (simp add: py_in_char)
  then have h: "py_index (py_split ''>'' raw) 0 = Inr raw"
    by (simp add: header_never_raises takeWhile_absent)
  have p: "parse_cdp_nei raw = Inr ?rels"
    using assms(1,3) by (simp only: parse_cdp_nei_eq not_True_eq_False if_False)
  have m: "map_of ?rels = map_of (rev (map ?f (table_lines raw)))"
    by (simp add: map_of_fold_update)
  have "fst ` set ?rels = fst ` ?f ` set (table_lines raw)"
    by (simp add: keys_fold_update)
  then have k: "\<forall>r \<in> set ?rels. fst (fst r) = local_name raw"
    using line_relation_name by (metis (no_types, lifting) image_iff)
  from h p m k show ?thesis
    unfolding n by blast
qed

theorem parse_cdp_nei_without_prompt_witness:
  "py_in ''Port ID'' ''Device ID  Port ID\<newline>R2  Gig 0/1  150  Gig 0/2''
   \<and> \<not> py_in ''>'' ''Device ID  Port ID\<newline>R2  Gig 0/1  150  Gig 0/2''
   \<and> lines_ok ''Device ID  Port ID\<newline>R2  Gig 0/1  150  Gig 0/2''
   \<and> parse_cdp_nei ''Device ID  Port ID\<newline>R2  Gig 0/1  150  Gig 0/2''
       = Inr [((''Device ID  Port IDR2  Gig 0/1  150  Gig 0/2'', ''Gig0/1''), (''R2'', ''Gig0/2''))]"
proof -
  let ?raw = "''Device ID  Port ID\<newline>R2  Gig 0/1  150  Gig 0/2''"
  have a: "py_in ''Port ID'' ?raw" by code_simp
  have b: "\<not> py_in ''>'' ?raw" by code_simp
  have c: "lines_ok ?raw" by code_simp
  have v: "parse_cdp_nei ?raw
       = Inr [((''Device ID  Port IDR2  Gig 0/1  150  Gig 0/2'', ''Gig0/1''), (''R2'', ''Gig0/2''))]"
    by code_simp
  from parse_cdp_nei_without_prompt [OF a b c] a b c v show ?thesis
    by simp
qed

theorem parse_cdp_nei_short_line_counterexample:
  "py_in ''Port ID'' ''Port ID\<newline>R2'' \<and> \<not> py_in ''>'' ''Port ID\<newline>R2''
   \<and> parse_cdp_nei ''Port ID\<newline>R2'' = Inl IndexError"
  by code_simp

subsection \<open>The steps\<close>

lemma and_then_st_Inl: "and_then_st (Inl e, s) f = (Inl e, s)"
  by (simp add: and_then_st_def)

lemma and_then_st_Inr: "and_then_st (Inr v, s) f = f v s"
  by (simp add: and_then_st_def)

lemma except_Error_Inl: "except_Error (Inl e, s) = (Inl (NameError ''Error''), s)"
  by (simp add: except_Error_def)

lemma except_Error_Inr: "except_Error (Inr v, s) = (Inr v, s)"
  by (simp add: except_Error_def)

lemma invoke_eq:
  "invoke c x = (remote c (transcript c) x, c\<lparr>transcript := transcript c @ [(x, remote c (transcript c) x)]\<rparr>)"
  by (simp add: invoke_def Let_def)

lemmas run_simps = and_then_st_Inl and_then_st_Inr except_Error_Inl except_Error_Inr
  enable_def send_command_def send_config_set_def disconnect_def invoke_eq

text \<open>
  Claim C9. Whenever the run of the time-sync step ends with the status query
  \<^verbatim>\<open>sho ntp status\<close> answered by a text, the step returns \<^verbatim>\<open>Clock in Sync\<close> if that text
  contains \<^verbatim>\<open>Clock is synchronized\<close> and \<^verbatim>\<open>Clock not in Sync\<close> for any other text. (The
  query is the last call of the step, and an earlier call that raises leaves an exception
  as the last entry of the transcript.)
\<close>

theorem config_ntp_reports_sync:
  assumes "last (transcript (snd (config_ntp c host t))) = (SendCommand ''sho ntp status'', Inr out)"
  shows "fst (config_ntp c host t) =
           Inr (if py_in ''Clock is synchronized'' out then ''Clock in Sync'' else ''Clock not in Sync'')"
proof -
  let ?c1 = "snd (enable c)"
  let ?c2 = "snd (send_config_set ?c1 ''clock timezone GMT 0'')"
  let ?role = "if t = ''server'' then send_config_set ?c2 ''ntp master''
                else if t = ''client'' then send_config_set ?c2 ''ntp server 192.168.194.101''
                else (fst (send_config_set ?c1 ''clock timezone GMT 0''), ?c2)"
  let ?c3 = "snd ?role"
  let ?q = "send_command ?c3 ''sho ntp status''"
  show ?thesis
  proof (cases "fst (enable c)")
    case (Inl e)
    then have "config_ntp c host t = (Inl (NameError ''Error''), ?c1)"
      by (simp add: config_ntp_def run_simps)
    with Inl assms show ?thesis by (simp add: run_simps)
  next
    case a: (Inr v1)
    show ?thesis
    proof (cases "fst (send_config_set ?c1 ''clock timezone GMT 0'')")
      case (Inl e)
      with a have "config_ntp c host t = (Inl (NameError ''Error''), ?c2)"
        by (simp add: config_ntp_def run_simps)
      with Inl assms show ?thesis by (simp add: run_simps)
    next
      case b: (Inr v2)
      show ?thesis
      proof (cases "fst ?role")
        case (Inl e)
        with a b have "config_ntp c host t = (Inl (NameError ''Error''), ?c3)"
          by (simp add: config_ntp_def run_simps split: if_splits)
        with Inl assms show ?thesis by (simp add: run_simps split: if_splits)
      next
        case s: (Inr v3)
        show ?thesis
        proof (cases "fst ?q")
          case (Inl e)
          with a b s have "config_ntp c host t = (Inl (NameError ''Error''), snd ?q)"
            by (simp add: config_ntp_def run_simps split: if_splits)
          with Inl assms show ?thesis by (simp add: run_simps split: if_splits)
        next
          case q: (Inr reply)
          with a b s have r: "config_ntp c host t =
            (Inr (if py_in ''Clock is synchronized'' reply then ''Clock in Sync'' else ''Clock not in Sync''), snd ?q)"
            by (simp add: config_ntp_def run_simps split: if_splits)
          with assms q have "reply = out"
            by (simp add: run_simps split: if_splits)
          with r show ?thesis by simp
        qed
      qed
    qed
  qed
qed

theorem config_ntp_reports_sync_witness:
  "last (transcript (snd (config_ntp (on_line router_R1) ''R1'' ''client'')))
     = (SendCommand ''sho ntp status'', Inr ''Clock is synchronized, stratum 8'')
   \<and> fst (config_ntp (on_line router_R1) ''R1'' ''client'') = Inr ''Clock in Sync''
   \<and> last (transcript (snd (config_ntp (on_line router_alone) ''R4'' ''server'')))
     = (SendCommand ''sho ntp status'', Inr ''Clock is unsynchronized'')
   \<and> fst (config_ntp (on_line router_alone) ''R4'' ''server'') = Inr ''Clock not in Sync''"
proof -
  have h1: "last (transcript (snd (config_ntp (on_line router_R1) ''R1'' ''client'')))
     = (SendCommand ''sho ntp status'', Inr ''Clock is synchronized, stratum 8'')"
    by code_simp
  have p1: "py_in ''Clock is synchronized'' ''Clock is synchronized, stratum 8''"
    by code_simp
  have h2: "last (transcript (snd (config_ntp (on_line router_alone) ''R4'' ''server'')))
     = (SendCommand ''sho ntp status'', Inr ''Clock is unsynchronized'')"
    by code_simp
  have p2: "\<not> py_in ''Clock is synchronized'' ''Clock is unsynchronized''"
    by code_simp
  from config_ntp_reports_sync [OF h1] config_ntp_reports_sync [OF h2] p1 p2 h1 h2
  show ?thesis by simp
qed

text \<open>
  The step does return when no call on the connection raises, whatever the role.
\<close>

lemma config_ntp_returns:
  assumes "\<And>h x. \<exists>s. remote c h x = Inr s"
  shows "\<exists>r. fst (config_ntp c host t) = Inr r"
proof -
  have inv: "\<And>c' x. remote c' = remote c \<Longrightarrow> \<exists>s. invoke c' x = (Inr s, c'\<lparr>transcript := transcript c' @ [(x, Inr s)]\<rparr>)"
    using assms by (metis invoke_eq)
  obtain s1 c1 where 1: "enable c = (Inr s1, c1)" "remote c1 = remote c"
    using inv [of c Enable] by (auto simp: enable_def)
  obtain s2 c2 where 2: "send_config_set c1 ''clock timezone GMT 0'' = (Inr s2, c2)" "remote c2 = remote c"
    using inv [of c1] 1 by (fastforce simp: send_config_set_def)
  have "\<exists>s3 c3. (if t = ''server'' then send_config_set c2 ''ntp master''
                else if t = ''client'' then send_config_set c2 ''ntp server 192.168.194.101''
                else (Inr s2, c2)) = (Inr s3, c3) \<and> remote c3 = remote c"
  proof (cases "t = ''server''")
    case True
    then show ?thesis
      using inv [of c2 "SendConfigSet ''ntp master''"] 2 by (auto simp: send_config_set_def)
  next
    case False
    then show ?thesis
      using inv [of c2 "SendConfigSet ''ntp server 192.168.194.101''"] 2
      by (auto simp: send_config_set_def)
  qed
  then obtain s3 c3 where 3: "(if t = ''server'' then send_config_set c2 ''ntp master''
                else if t = ''client'' then send_config_set c2 ''ntp server 192.168.194.101''
                else (Inr s2, c2)) = (Inr s3, c3)" "remote c3 = remote c"
    by blast
  obtain s4 c4 where 4: "send_command c3 ''sho ntp status'' = (Inr s4, c4)"
    using inv [of c3] 3 by (fastforce simp: send_command_def)
  show ?thesis
    unfolding config_ntp_def 1 2 3 4 and_then_st_Inr except_Error_def
    by (simp split: if_splits)
qed

text \<open>
  Claim C7, as amended. Whenever the run of the topology step ends with the neighbor
  query answered by a text that the parser accepts, the step returns \<^verbatim>\<open>CDP is off\<close>
  exactly when the parser extracted no relation, and \<^verbatim>\<open>CDP is on, N peers\<close> with N the
  number of relations otherwise. On such a run the calls made are \<^verbatim>\<open>enable\<close>, the query
  \<^verbatim>\<open>sho run | in no cdp run\<close>, then \<^verbatim>\<open>cdp run\<close> exactly when the answer to that query
  contains \<^verbatim>\<open>no cdp run\<close>, then the neighbor query: whether discovery was switched off in
  the configuration decides only whether \<^verbatim>\<open>cdp run\<close> is sent. The counterexample has both
  directions: \<open>router_alone\<close> has discovery on and is reported off, \<open>router_cdp_off\<close>
  has it switched off and is reported on with one peer.
\<close>

theorem check_cdp_reports_peers:
  assumes "last (transcript (snd (check_cdp c host))) = (SendCommand ''sho cdp neigh'', Inr out)"
    and "parse_cdp_nei out = Inr rels"
  shows "fst (check_cdp c host) =
           Inr (if length rels = 0 then ''CDP is off''
                else ''CDP is on, '' @ str_nat (length rels) @ '' peers'')
         \<and> (fst (check_cdp c host) = Inr ''CDP is off'') = (length rels = 0)
         \<and> (\<exists>v conf w. transcript (snd (check_cdp c host)) =
               transcript c
               @ [(Enable, Inr v), (SendCommand ''sho run | in no cdp run'', Inr conf)]
               @ (if py_in ''no cdp run'' conf then [(SendConfigSet ''cdp run'', Inr w)] else [])
               @ [(SendCommand ''sho cdp neigh'', Inr out)])"
proof -
  let ?c1 = "snd (enable c)"
  let ?a = "send_command ?c1 ''sho run | in no cdp run''"
  let ?c2 = "snd ?a"
  let ?on = "if \<not> py_in ''no cdp run'' (projr (fst ?a)) then (fst ?a, ?c2)
             else send_config_set ?c2 ''cdp run''"
  let ?c3 = "snd ?on"
  let ?q = "send_command ?c3 ''sho cdp neigh''"
  let ?report = "Inr (if length rels = 0 then ''CDP is off''
                else ''CDP is on, '' @ str_nat (length rels) @ '' peers'') :: exn + string"
  let ?calls = "\<lambda>v conf w. transcript c
               @ [(Enable, Inr v), (SendCommand ''sho run | in no cdp run'', Inr conf)]
               @ (if py_in ''no cdp run'' conf then [(SendConfigSet ''cdp run'', Inr w)] else [])
               @ [(SendCommand ''sho cdp neigh'', Inr out)]"
  have main: "fst (check_cdp c host) = ?report
      \<and> (\<exists>v conf w. transcript (snd (check_cdp c host)) = ?calls v conf w)"
  proof (cases "fst (enable c)")
    case (Inl e)
    then have "check_cdp c host = (Inl (NameError ''Error''), ?c1)"
      by (simp add: check_cdp_def run_simps)
    with Inl assms show ?thesis by (simp add: run_simps)
  next
    case a: (Inr v1)
    show ?thesis
    proof (cases "fst ?a")
      case (Inl e)
      with a have "check_cdp c host = (Inl (NameError ''Error''), ?c2)"
        by (simp add: check_cdp_def run_simps)
      with Inl assms show ?thesis by (simp add: run_simps)
    next
      case b: (Inr v2)
      show ?thesis
      proof (cases "fst ?on")
        case (Inl e)
        with a b have "check_cdp c host = (Inl (NameError ''Error''), ?c3)"
          by (simp add: check_cdp_def run_simps split: if_splits)
        with Inl assms show ?thesis by (simp add: run_simps split: if_splits)
      next
        case s: (Inr v3)
        show ?thesis
        proof (cases "fst ?q")
          case (Inl e)
          with a b s have "check_cdp c host = (Inl (NameError ''Error''), snd ?q)"
            by (simp add: check_cdp_def run_simps split: if_splits)
          with Inl assms show ?thesis by (simp add: run_simps split: if_splits)
        next
          case q: (Inr reply)
          with a b s have r: "check_cdp c host =
            except_Error (and_then_st (parse_cdp_nei reply, snd ?q) (\<lambda>connections_dict c5.
              (let cdp_neigh_num = length connections_dict
               in if cdp_neigh_num \<noteq> 0
                  then (Inr (''CDP is on, '' @ str_nat cdp_neigh_num @ '' peers''), c5)
                  else (Inr ''CDP is off'', c5))))"
            by (simp add: check_cdp_def run_simps split: if_splits)
          have "last (transcript (snd (check_cdp c host))) = (SendCommand ''sho cdp neigh'', Inr reply)"
            using q unfolding r
            by (cases "parse_cdp_nei reply") (simp_all add: run_simps Let_def split: if_splits)
          with assms have same: "reply = out" by simp
          with r assms(2) have rep: "fst (check_cdp c host) = ?report"
            by (simp add: run_simps Let_def)
          from r assms(2) same have fin: "snd (check_cdp c host) = snd ?q"
            by (simp add: run_simps Let_def)
          have "transcript (snd ?q) = ?calls v1 v2 v3"
            using a b s q same by (simp add: run_simps split: if_splits)
          with fin have "\<exists>v conf w. transcript (snd (check_cdp c host)) = ?calls v conf w"
            by metis
          with rep show ?thesis by blast
        qed
      qed
    qed
  qed
  then show ?thesis by auto
qed

theorem check_cdp_reports_peers_witness:
  "last (transcript (snd (check_cdp (on_line router_cdp_off) ''R5'')))
     = (SendCommand ''sho cdp neigh'', Inr neighbors_R1)
   \<and> parse_cdp_nei neighbors_R1 = Inr [((''R1'', ''Gig0/1''), (''R2'', ''Gig0/2''))]
   \<and> fst (check_cdp (on_line router_cdp_off) ''R5'') = Inr ''CDP is on, 1 peers''"
proof -
  have h: "last (transcript (snd (check_cdp (on_line router_cdp_off) ''R5'')))
     = (SendCommand ''sho cdp neigh'', Inr neighbors_R1)"
    by code_simp
  have p: "parse_cdp_nei neighbors_R1 = Inr [((''R1'', ''Gig0/1''), (''R2'', ''Gig0/2''))]"
    by code_simp
  have n: "str_nat 1 = ''1''"
    by code_simp
  from check_cdp_reports_peers [OF h p] h p n show ?thesis
    by simp
qed

theorem check_cdp_off_counterexample:
  "transcript (snd (check_cdp (on_line router_alone) ''R4''))
     = [(Enable, Inr []), (SendCommand ''sho run | in no cdp run'', Inr []),
        (SendCommand ''sho cdp neigh'', Inr neighbors_none)]
   \<and> \<not> py_in ''no cdp run'' []
   \<and> fst (check_cdp (on_line router_alone) ''R4'') = Inr ''CDP is off''
   \<and> transcript (snd (check_cdp (on_line router_cdp_off) ''R5''))
     = [(Enable, Inr []), (SendCommand ''sho run | in no cdp run'', Inr ''no cdp run''),
        (SendConfigSet ''cdp run'', Inr []), (SendCommand ''sho cdp neigh'', Inr neighbors_R1)]
   \<and> py_in ''no cdp run'' ''no cdp run''
   \<and> fst (check_cdp (on_line router_cdp_off) ''R5'') = Inr ''CDP is on, 1 peers''"
  by code_simp

subsection \<open>The pipeline and the run\<close>


lemma get_all_returns:
  "get_all ps result = Inr rs \<Longrightarrow> rs = result @ map projr ps \<and> (\<forall>p \<in> set ps. \<not> isl p)"
proof (induction ps arbitrary: result)
  case Nil
  then show ?case by simp
next
  case (Cons p ps)
  show ?case
  proof (cases p)
    case (Inl e)
    with Cons.prems show ?thesis by simp
  next
    case (Inr b)
    with Cons.prems have "get_all ps (result @ [b]) = Inr rs" by simp
    from Cons.IH [OF this] Inr show ?thesis by simp
  qed
qed

lemma collect_results_length:
  "collect_results worlds timestamp device_list = Inr rs \<Longrightarrow> length rs = length device_list"
  by (auto simp: collect_results_def apply_async_def dest: get_all_returns)





text \<open>
  Claim C1, at a failing input. The inventory of \<open>R1\<close> alone gives its record. With a
  second device whose version banner has no comma, the version step of that device
  raises, \<open>process_target\<close> raises, and the run ends in that exception with no record
  at all, where the claim asks for two.
\<close>

theorem step_failure_drops_every_record:
  "collect_results (\<lambda>i. lab) run_stamp [dev ''10.0.0.1'' ''R1'']
       = Inr [''R1| 2800 | Version 12.4(24)T|PE|CDP is on, 1 peers|Clock in Sync'']
   \<and> collect_results (\<lambda>i. lab) run_stamp [dev ''10.0.0.1'' ''R1'', dev ''10.0.0.2'' ''R2'']
       = Inl (NameError ''Error'')
   \<and> main (\<lambda>i. lab) run_stamp [dev ''10.0.0.1'' ''R1'', dev ''10.0.0.2'' ''R2'']
       = Inl (NameError ''Error'')"
  by code_simp

text \<open>
  Claim C2, at a failing input. The banner of \<open>router_R1\<close> contains neither
  \<^verbatim>\<open>k9\<close> nor \<^verbatim>\<open>K9\<close>, and the licensing step returns \<^verbatim>\<open>PE\<close>, where the claim asks for
  \<^verbatim>\<open>NPE\<close>. The lemma after it shows that the step returns \<^verbatim>\<open>NPE\<close> for no device.
\<close>

theorem Check_NPE_ignores_marker:
  "\<not> py_in ''k9'' banner_2800 \<and> \<not> py_in ''K9'' banner_2800
   \<and> last (transcript (snd (Check_NPE (on_line router_R1) ''R1''))) = (SendCommand ''sho ver | in IOS'', Inr banner_2800)
   \<and> fst (Check_NPE (on_line router_R1) ''R1'') = Inr ''PE''"
  by code_simp

lemma Check_NPE_never_NPE: "fst (Check_NPE c host) \<noteq> Inr ''NPE''"
  by (cases "remote c (transcript c) Enable";
      cases "remote c (transcript c @ [(Enable, remote c (transcript c) Enable)]) (SendCommand ''sho ver | in IOS'')")
     (simp_all add: Check_NPE_def run_simps py_truthy_def)

text \<open>
  Claim C3, at a failing input. On a banner without a comma the platform step and the
  version step raise NameError instead of recording a sentinel, \<open>process_target\<close>
  raises with them, and the calls made on the connection end at the version query of the
  platform step: the remaining steps are not run and no record is returned.
\<close>

theorem step_failure_is_not_caught:
  "fst (Check_dev_pid (on_line router_bare) ''R2'') = Inl (NameError ''Error'')
   \<and> fst (Check_ver (on_line router_bare) ''R2'') = Inl (NameError ''Error'')
   \<and> fst (process_target lab (dev ''10.0.0.2'' ''R2'') run_stamp) = Inl (NameError ''Error'')
   \<and> (case snd (snd (process_target lab (dev ''10.0.0.2'' ''R2'') run_stamp)) of
         None \<Rightarrow> False
       | Some c \<Rightarrow> map fst (transcript c)
                    = [Enable, SendCommand ''sh run'', Enable, SendCommand ''sho ver | in IOS''])"
  by code_simp

text \<open>
  Claim C5, at failing inputs. A neighbor text without the \<^verbatim>\<open>Port ID\<close> marker and a
  table whose line has two fields both make the parser raise IndexError; the topology
  step turns that into NameError, and \<open>process_target\<close>, which the worker runs, raises.
\<close>

theorem malformed_neighbors_crash_worker:
  "parse_cdp_nei ''% CDP is not enabled'' = Inl IndexError
   \<and> parse_cdp_nei (neighbors_none @ ''R2 Gig'') = Inl IndexError
   \<and> fst (check_cdp (on_line router_no_cdp) ''R3'') = Inl (NameError ''Error'')
   \<and> fst (process_target lab (dev ''10.0.0.3'' ''R3'') run_stamp) = Inl (NameError ''Error'')"
  by code_simp

text \<open>
  Claim C8, at a failing input. After the topology step has raised, \<open>process_target\<close>
  leaves a connection on which calls were made and \<^verbatim>\<open>disconnect\<close> was not; on the
  run of \<open>R1\<close>, where no step raises, the session is closed.
\<close>

theorem failed_step_leaks_session:
  "fst (process_target lab (dev ''10.0.0.3'' ''R3'') run_stamp) = Inl (NameError ''Error'')
   \<and> (case snd (snd (process_target lab (dev ''10.0.0.3'' ''R3'') run_stamp)) of
         None \<Rightarrow> False
       | Some c \<Rightarrow> transcript c \<noteq> [] \<and> \<not> session_closed c)
   \<and> (case snd (snd (process_target lab (dev ''10.0.0.1'' ''R1'') run_stamp)) of
         None \<Rightarrow> False
       | Some c \<Rightarrow> session_closed c)"
  by code_simp

end
